theory Spec2Isabelle
  imports Main "HOL-Library.Word"
begin

unbundle bit_operations_syntax

section \<open>The image editor's session: a shallow embedding of app.py\<close>

text \<open>
  The program is one script that the GUI framework runs again from the top on every user
  action. Its state is the four session variables \<open>original_image_b64\<close>,
  \<open>last_image_b64\<close>, \<open>chat_history\<close> and \<open>chat_display\<close>; the model passes that state
  explicitly. Python's \<open>None\<close> is \<open>None\<close> of an option type, and Python's truth test on a
  string or on \<open>None\<close> is written out (\<open>truthy\<close>). A Python \<open>str\<close> is a list of
  Unicode code points (\<open>str\<close>), and \<open>ustr\<close> gives the \<open>str\<close> of an ASCII literal.
  Drawing the page (the current image, the download button, the conversation) only reads
  the state and is left out.
\<close>

subsection \<open>Python strings\<close>

type_synonym codepoint = nat

type_synonym str = "codepoint list"

definition ustr :: "string \<Rightarrow> str" where
  "ustr s = map of_char s"

subsection \<open>Base64 (helpers \<open>encode_b64\<close> and \<open>decode_b64\<close>)\<close>

text \<open>
  The two helpers call the standard library's \<open>base64.b64encode\<close> and
  \<open>base64.b64decode\<close>. The encoder is the one of RFC 4648: three octets become four
  letters of the alphabet, and a last group of one or two octets is padded with \<open>=\<close>.
  The encoder's ASCII bytes are decoded to a \<open>str\<close> (\<open>.decode("utf-8")\<close>).
  The decoder is the library's lenient one (\<open>validate=False\<close>): a \<open>str\<close> with a
  code point that is not ASCII is refused, letters outside the alphabet are skipped,
  decoding stops at a completed pad sequence, and an unfinished group of letters is an
  error.
\<close>

type_synonym byte = "8 word"

definition table_b2a_base64 :: string where
  "table_b2a_base64 =
     ''ABCDEFGHIJKLMNOPQRSTUVWXYZabcdefghijklmnopqrstuvwxyz0123456789+/''"

definition b2a :: "byte \<Rightarrow> char" where
  "b2a w = table_b2a_base64 ! unat (w AND 63)"

fun b64encode :: "byte list \<Rightarrow> string" where
  "b64encode [] = []"
| "b64encode [a] =
     [b2a (drop_bit 2 a), b2a (push_bit 4 (a AND 3)), CHR ''='', CHR ''='']"
| "b64encode [a, b] =
     [b2a (drop_bit 2 a), b2a (push_bit 4 (a AND 3) OR drop_bit 4 b),
      b2a (push_bit 2 (b AND 15)), CHR ''='']"
| "b64encode (a # b # c # rest) =
     [b2a (drop_bit 2 a), b2a (push_bit 4 (a AND 3) OR drop_bit 4 b),
      b2a (push_bit 2 (b AND 15) OR drop_bit 6 c), b2a (c AND 63)] @ b64encode rest"

definition encode_b64 :: "byte list \<Rightarrow> str" where
  "encode_b64 b = ustr (b64encode b)"

datatype b64_error = NotAscii | InvalidLength | IncorrectPadding

definition table_a2b_base64 :: "char \<Rightarrow> byte option" where
  "table_a2b_base64 c =
     map_of (zip table_b2a_base64 (map word_of_nat [0..<64])) c"

text \<open>
  The decoder's loop over the letters. Its state is the position in the current group of
  four (\<open>quad_pos\<close>), the bits left over from the previous letter (\<open>leftchar\<close>), the
  number of pad letters just seen (\<open>pads\<close>) and the octets written so far.
\<close>

fun a2b_loop :: "string \<Rightarrow> nat \<Rightarrow> byte \<Rightarrow> nat \<Rightarrow> byte list \<Rightarrow> b64_error + byte list" where
  "a2b_loop [] quad_pos leftchar pads out =
     (if quad_pos = 0 then Inr out
      else if quad_pos = 1 then Inl InvalidLength
      else Inl IncorrectPadding)"
| "a2b_loop (ch # rest) quad_pos leftchar pads out =
     (if ch = CHR ''='' then
        (if quad_pos \<ge> 2 \<and> quad_pos + (pads + 1) \<ge> 4 then Inr out
         else if quad_pos \<ge> 2 then a2b_loop rest quad_pos leftchar (pads + 1) out
         else a2b_loop rest quad_pos leftchar pads out)
      else
        (case table_a2b_base64 ch of
           None \<Rightarrow> a2b_loop rest quad_pos leftchar pads out
         | Some this_ch \<Rightarrow>
             (if quad_pos = 0 then a2b_loop rest 1 this_ch 0 out
              else if quad_pos = 1 then
                a2b_loop rest 2 (this_ch AND 15) 0
                  (out @ [push_bit 2 leftchar OR drop_bit 4 this_ch])
              else if quad_pos = 2 then
                a2b_loop rest 3 (this_ch AND 3) 0
                  (out @ [push_bit 4 leftchar OR drop_bit 2 this_ch])
              else
                a2b_loop rest 0 0 0 (out @ [push_bit 6 leftchar OR this_ch]))))"

definition b64decode :: "str \<Rightarrow> b64_error + byte list" where
  "b64decode s =
     (if \<exists>c \<in> set s. c \<ge> 128 then Inl NotAscii
      else a2b_loop (map char_of s) 0 0 0 [])"

definition decode_b64 :: "str \<Rightarrow> b64_error + byte list" where
  "decode_b64 s = b64decode s"

subsection \<open>Session state\<close>

record turn =
  turn_role :: str
  turn_text :: str

record display_entry =
  disp_role :: str
  disp_kind :: str
  disp_data :: str

record session_state =
  original_image_b64 :: "str option"
  last_image_b64 :: "str option"
  chat_history :: "turn list"
  chat_display :: "display_entry list"

definition initial_state :: session_state where
  "initial_state =
     \<lparr>original_image_b64 = None, last_image_b64 = None,
      chat_history = [], chat_display = []\<rparr>"

text \<open>Python's truth value of \<open>None\<close> or a str: \<open>None\<close> and the empty str are false.\<close>

fun truthy :: "str option \<Rightarrow> bool" where
  "truthy None = False"
| "truthy (Some s) = (s \<noteq> [])"

subsection \<open>Sidebar: reset and upload\<close>

definition reset :: "session_state \<Rightarrow> session_state" where
  "reset st =
     st\<lparr>original_image_b64 := None, last_image_b64 := None,
        chat_history := [], chat_display := []\<rparr>"

text \<open>
  The upload branch runs when a file is in the uploader and no original image is stored.
  The uploaded file object is always true in Python, even when it holds no bytes.
\<close>

definition ingest_upload :: "byte list option \<Rightarrow> session_state \<Rightarrow> session_state" where
  "ingest_upload uploaded st =
     (case uploaded of
        None \<Rightarrow> st
      | Some raw \<Rightarrow>
          (if original_image_b64 st = None then
             st\<lparr>original_image_b64 := Some (encode_b64 raw),
                last_image_b64 := Some (encode_b64 raw),
                chat_history := [], chat_display := []\<rparr>
           else st))"

subsection \<open>The request payload\<close>

datatype content_item =
  TextItem (item_type: str) (item_text: str)
| ImageItem (item_type: str) (image_url: str)

record message =
  msg_role :: str
  msg_content :: "content_item list"

text \<open>An f-string renders \<open>None\<close> as the text \<open>None\<close>.\<close>

definition format_opt :: "str option \<Rightarrow> str" where
  "format_opt v = (case v of None \<Rightarrow> ustr ''None'' | Some s \<Rightarrow> s)"

definition history_message :: "turn \<Rightarrow> message" where
  "history_message msg =
     (let input_type =
            (if turn_role msg = ustr ''user'' then ustr ''input_text''
             else ustr ''output_text'')
      in \<lparr>msg_role = turn_role msg,
          msg_content = [TextItem input_type (turn_text msg)]\<rparr>)"

text \<open>The loop over \<open>chat_history\<close>, appending to \<open>messages\<close>.\<close>

fun older_turns :: "turn list \<Rightarrow> message list \<Rightarrow> message list" where
  "older_turns [] messages = messages"
| "older_turns (msg # rest) messages = older_turns rest (messages @ [history_message msg])"

definition build_payload :: "session_state \<Rightarrow> str \<Rightarrow> message list" where
  "build_payload st user_prompt =
     (let messages = older_turns (chat_history st) []
      in messages @
         [\<lparr>msg_role = ustr ''user'',
           msg_content =
             [TextItem (ustr ''input_text'') user_prompt,
              ImageItem (ustr ''input_image'')
                (ustr ''data:image/jpeg;base64,'' @ format_opt (last_image_b64 st))]\<rparr>])"

subsection \<open>Parsing the response\<close>

text \<open>
  A content piece of a message is read through \<open>getattr(c, "text", None)\<close>: \<open>piece_text\<close>
  is that value. An output item is read through its \<open>type\<close>, and then through \<open>content\<close>
  or \<open>result\<close>.
\<close>

record content_piece =
  piece_text :: "str option"

record output_item =
  out_type :: str
  out_content :: "content_piece list"
  out_result :: "str option"

fun collect_text :: "content_piece list \<Rightarrow> str list \<Rightarrow> str list" where
  "collect_text [] assistant_text = assistant_text"
| "collect_text (c # rest) assistant_text =
     (let txt = piece_text c
      in if truthy txt then collect_text rest (assistant_text @ [the txt])
         else collect_text rest assistant_text)"

fun parse_output ::
  "output_item list \<Rightarrow> str list \<Rightarrow> str option \<Rightarrow> str list \<times> str option" where
  "parse_output [] assistant_text assistant_img_b64 = (assistant_text, assistant_img_b64)"
| "parse_output (out # rest) assistant_text assistant_img_b64 =
     (if out_type out = ustr ''message'' then
        parse_output rest (collect_text (out_content out) assistant_text) assistant_img_b64
      else if out_type out = ustr ''image_generation_call'' then
        parse_output rest assistant_text (out_result out)
      else parse_output rest assistant_text assistant_img_b64)"

text \<open>
  \<open>"\n".join\<close> and \<open>str.strip\<close>. Without an argument \<open>strip\<close> removes the
  leading and trailing code points that Python counts as whitespace.
\<close>

fun join_newline :: "str list \<Rightarrow> str" where
  "join_newline [] = []"
| "join_newline [s] = s"
| "join_newline (s # t # rest) = s @ [0x0A] @ join_newline (t # rest)"

definition is_space :: "codepoint \<Rightarrow> bool" where
  "is_space c =
     (c \<in> {0x09, 0x0A, 0x0B, 0x0C, 0x0D, 0x1C, 0x1D, 0x1E, 0x1F, 0x20, 0x85, 0xA0,
            0x1680, 0x2000, 0x2001, 0x2002, 0x2003, 0x2004, 0x2005, 0x2006, 0x2007,
            0x2008, 0x2009, 0x200A, 0x2028, 0x2029, 0x202F, 0x205F, 0x3000})"

definition strip :: "str \<Rightarrow> str" where
  "strip s = rev (dropWhile is_space (rev (dropWhile is_space s)))"

definition full_assistant_text :: "output_item list \<Rightarrow> str" where
  "full_assistant_text output = strip (join_newline (fst (parse_output output [] None)))"

definition assistant_img_b64 :: "output_item list \<Rightarrow> str option" where
  "assistant_img_b64 output = snd (parse_output output [] None)"

subsection \<open>Updating the session from a response\<close>

definition apply_response ::
  "session_state \<Rightarrow> str \<Rightarrow> output_item list \<Rightarrow> session_state" where
  "apply_response st user_prompt output =
     (let txt = full_assistant_text output;
          img = assistant_img_b64 output;
          st1 = st\<lparr>chat_history :=
                     chat_history st @ [\<lparr>turn_role = ustr ''user'', turn_text = user_prompt\<rparr>],
                   chat_display :=
                     chat_display st @
                       [\<lparr>disp_role = ustr ''user'', disp_kind = ustr ''text'',
                         disp_data = user_prompt\<rparr>]\<rparr>;
          st2 = (if txt \<noteq> [] then
                   st1\<lparr>chat_history :=
                         chat_history st1 @ [\<lparr>turn_role = ustr ''assistant'', turn_text = txt\<rparr>],
                       chat_display :=
                         chat_display st1 @
                           [\<lparr>disp_role = ustr ''assistant'', disp_kind = ustr ''text'',
                             disp_data = txt\<rparr>]\<rparr>
                 else st1)
      in if truthy img then
           st2\<lparr>last_image_b64 := img,
               chat_display :=
                 chat_display st2 @
                   [\<lparr>disp_role = ustr ''assistant'', disp_kind = ustr ''image'',
                     disp_data = the img\<rparr>]\<rparr>
         else st2)"

subsection \<open>The prompt handler\<close>

text \<open>
  The remote service is a parameter: it maps the payload to the response's output list,
  or to \<open>None\<close> when the call raises. The outcome records what the handler did: nothing
  (no prompt), stopped with a message to the user, the call raised (with the payload that
  was sent), or the response was applied.
\<close>

datatype error = MissingImageError | RemoteCallError

datatype outcome =
  NoPrompt
| Stopped error
| Raised error "message list"
| Applied "message list"

type_synonym service = "message list \<Rightarrow> output_item list option"

definition handle_prompt ::
  "service \<Rightarrow> str option \<Rightarrow> session_state \<Rightarrow> outcome \<times> session_state" where
  "handle_prompt create user_prompt st =
     (if truthy user_prompt then
        (if original_image_b64 st = None then (Stopped MissingImageError, st)
         else
           (let payload = build_payload st (the user_prompt)
            in case create payload of
                 None \<Rightarrow> (Raised RemoteCallError payload, st)
               | Some output \<Rightarrow> (Applied payload, apply_response st (the user_prompt) output)))
      else (NoPrompt, st))"

subsection \<open>Sequences of operations\<close>

text \<open>
  The operations of the conversation manager, run one after another; and the user's
  actions as the script handles them, where the response is applied only behind the
  handler's guard. One run of the script handles the reset button, then the uploader,
  then the prompt.
\<close>

datatype operation =
  Reset
| IngestUpload "byte list"
| ApplyResponse str "output_item list"

fun exec :: "operation \<Rightarrow> session_state \<Rightarrow> session_state" where
  "exec Reset st = reset st"
| "exec (IngestUpload raw) st = ingest_upload (Some raw) st"
| "exec (ApplyResponse user_prompt output) st = apply_response st user_prompt output"

fun exec_all :: "operation list \<Rightarrow> session_state \<Rightarrow> session_state" where
  "exec_all [] st = st"
| "exec_all (op # ops) st = exec_all ops (exec op st)"

datatype action =
  ClickReset
| Upload "byte list"
| Submit str service

fun act :: "action \<Rightarrow> session_state \<Rightarrow> session_state" where
  "act ClickReset st = reset st"
| "act (Upload raw) st = ingest_upload (Some raw) st"
| "act (Submit user_prompt create) st = snd (handle_prompt create (Some user_prompt) st)"

fun act_all :: "action list \<Rightarrow> session_state \<Rightarrow> session_state" where
  "act_all [] st = st"
| "act_all (a # as) st = act_all as (act a st)"

definition rerun ::
  "bool \<Rightarrow> byte list option \<Rightarrow> str option \<Rightarrow> service \<Rightarrow> session_state \<Rightarrow> session_state" where
  "rerun clicked uploaded user_prompt create st =
     (let st1 = (if clicked then reset st else st);
          st2 = ingest_upload uploaded st1
      in snd (handle_prompt create user_prompt st2))"

subsection \<open>The response, as the specification describes it\<close>

text \<open>
  The text pieces of all message items in the order met, the image-generation-call items,
  the items of a known type, an item without its pieces that carry no text, and the
  response without the image-generation-call items that a later one follows. The parsing
  loop is compared with these below.
\<close>

definition piece_texts :: "content_piece list \<Rightarrow> str list" where
  "piece_texts cs = map (\<lambda>c. the (piece_text c)) (filter (\<lambda>c. truthy (piece_text c)) cs)"

definition message_texts :: "output_item list \<Rightarrow> str list" where
  "message_texts output =
     concat (map (\<lambda>out. piece_texts (out_content out))
       (filter (\<lambda>out. out_type out = ustr ''message'') output))"

definition image_calls :: "output_item list \<Rightarrow> output_item list" where
  "image_calls output = filter (\<lambda>out. out_type out = ustr ''image_generation_call'') output"

definition known_items :: "output_item list \<Rightarrow> output_item list" where
  "known_items output =
     filter (\<lambda>out. out_type out = ustr ''message'' \<or> out_type out = ustr ''image_generation_call'') output"

definition drop_textless :: "output_item \<Rightarrow> output_item" where
  "drop_textless out =
     out\<lparr>out_content := filter (\<lambda>c. piece_text c \<noteq> None) (out_content out)\<rparr>"

fun keep_last_call :: "output_item list \<Rightarrow> output_item list" where
  "keep_last_call [] = []"
| "keep_last_call (out # rest) =
     (if out_type out = ustr ''image_generation_call'' \<and> image_calls rest \<noteq> []
      then keep_last_call rest else out # keep_last_call rest)"

text \<open>
  The transcript's roles alternate, starting with the given one.
\<close>

fun alternates_from :: "str \<Rightarrow> turn list \<Rightarrow> bool" where
  "alternates_from r [] = True"
| "alternates_from r (t # ts) =
     (turn_role t = r \<and> alternates_from (if r = ustr ''user'' then (ustr ''assistant'') else (ustr ''user'')) ts)"

subsection \<open>Example data\<close>

text \<open>
  A session after the upload of the three bytes \<open>Man\<close>, the same session one exchange
  later, and output items of a response: two image-generation calls with a result, one
  without, and a message whose first piece has no text.
\<close>

definition uploaded_session :: session_state where
  "uploaded_session =
     \<lparr>original_image_b64 = Some (ustr ''TWFu''), last_image_b64 = Some (ustr ''TWFu''),
      chat_history = [], chat_display = []\<rparr>"

definition edited_session :: session_state where
  "edited_session =
     \<lparr>original_image_b64 = Some (ustr ''TWFu''), last_image_b64 = Some (ustr ''REVG''),
      chat_history =
        [\<lparr>turn_role = ustr ''user'', turn_text = ustr ''make it blue''\<rparr>,
         \<lparr>turn_role = ustr ''assistant'', turn_text = ustr ''Done!''\<rparr>],
      chat_display =
        [\<lparr>disp_role = ustr ''user'', disp_kind = ustr ''text'', disp_data = ustr ''make it blue''\<rparr>,
         \<lparr>disp_role = ustr ''assistant'', disp_kind = ustr ''text'', disp_data = ustr ''Done!''\<rparr>,
         \<lparr>disp_role = ustr ''assistant'', disp_kind = ustr ''image'', disp_data = ustr ''REVG''\<rparr>]\<rparr>"

definition first_call :: output_item where
  "first_call =
     \<lparr>out_type = ustr ''image_generation_call'', out_content = [], out_result = Some (ustr ''QUJD'')\<rparr>"

definition second_call :: output_item where
  "second_call =
     \<lparr>out_type = ustr ''image_generation_call'', out_content = [], out_result = Some (ustr ''REVG'')\<rparr>"

definition empty_call :: output_item where
  "empty_call =
     \<lparr>out_type = ustr ''image_generation_call'', out_content = [], out_result = None\<rparr>"

definition done_message :: output_item where
  "done_message =
     \<lparr>out_type = ustr ''message'',
      out_content = [\<lparr>piece_text = None\<rparr>, \<lparr>piece_text = Some (ustr ''Done!'')\<rparr>],
      out_result = None\<rparr>"

text \<open>
  A response with two messages around an item of an unknown type. The first message has a
  piece that starts with a space and a tab, a piece without a text, a piece with an empty
  text and a piece that ends with a space; the last message ends with an em space and a
  newline.
\<close>

definition mixed_response :: "output_item list" where
  "mixed_response =
     [\<lparr>out_type = ustr ''message'',
       out_content =
         [\<lparr>piece_text = Some ([0x20, 0x09] @ ustr ''Hello'')\<rparr>, \<lparr>piece_text = None\<rparr>,
          \<lparr>piece_text = Some []\<rparr>, \<lparr>piece_text = Some (ustr ''big '')\<rparr>],
       out_result = None\<rparr>,
      \<lparr>out_type = ustr ''reasoning'',
       out_content = [\<lparr>piece_text = Some (ustr ''hidden'')\<rparr>],
       out_result = Some (ustr ''QUJD'')\<rparr>,
      \<lparr>out_type = ustr ''message'',
       out_content = [\<lparr>piece_text = Some (ustr ''world'' @ [0x2003, 0x0A])\<rparr>],
       out_result = None\<rparr>]"

section \<open>Properties\<close>

subsection \<open>Literals\<close>

lemma ustr_eq_iff [simp]: "ustr a = ustr b \<longleftrightarrow> a = b"
  by (simp add: ustr_def inj_map_eq_map inj_on_def)

lemma ustr_Nil_iff [simp]: "ustr s = [] \<longleftrightarrow> s = []"
  by (simp add: ustr_def)

lemma map_char_of_ustr [simp]: "map char_of (ustr s) = s"
  by (simp add: ustr_def map_idI)

lemma ustr_append [simp]: "ustr a @ ustr b = ustr (a @ b)"
  by (simp add: ustr_def)

lemma set_ustr: "set (ustr s) = of_char ` set s"
  by (simp add: ustr_def)

subsection \<open>Upload\<close>

text \<open>
  C6. An upload of raw bytes while no original image is stored sets both the original and
  the current image to the base64 encoding of the bytes and empties both logs; an upload
  while an original image is stored changes nothing.
\<close>

theorem ingest_upload_effect:
  "(original_image_b64 st = None \<longrightarrow>
      ingest_upload (Some raw) st =
        st\<lparr>original_image_b64 := Some (encode_b64 raw),
           last_image_b64 := Some (encode_b64 raw),
           chat_history := [], chat_display := []\<rparr>) \<and>
   (original_image_b64 st \<noteq> None \<longrightarrow> ingest_upload (Some raw) st = st)"
  by (simp add: ingest_upload_def)

theorem ingest_upload_effect_witness:
  "original_image_b64 initial_state = None \<and>
   ingest_upload (Some [0x4D, 0x61, 0x6E]) initial_state =
     \<lparr>original_image_b64 = Some (ustr ''TWFu''), last_image_b64 = Some (ustr ''TWFu''),
      chat_history = [], chat_display = []\<rparr> \<and>
   original_image_b64
     \<lparr>original_image_b64 = Some (ustr ''TWFu''), last_image_b64 = Some (ustr ''QUJD''),
      chat_history = [\<lparr>turn_role = ustr ''user'', turn_text = ustr ''hi''\<rparr>],
      chat_display = []\<rparr> \<noteq> None \<and>
   ingest_upload (Some [0x4D])
     \<lparr>original_image_b64 = Some (ustr ''TWFu''), last_image_b64 = Some (ustr ''QUJD''),
      chat_history = [\<lparr>turn_role = ustr ''user'', turn_text = ustr ''hi''\<rparr>],
      chat_display = []\<rparr> =
     \<lparr>original_image_b64 = Some (ustr ''TWFu''), last_image_b64 = Some (ustr ''QUJD''),
      chat_history = [\<lparr>turn_role = ustr ''user'', turn_text = ustr ''hi''\<rparr>],
      chat_display = []\<rparr>"
  using ingest_upload_effect [of initial_state "[0x4D, 0x61, 0x6E]"]
    ingest_upload_effect
      [of "\<lparr>original_image_b64 = Some (ustr ''TWFu''), last_image_b64 = Some (ustr ''QUJD''),
            chat_history = [\<lparr>turn_role = ustr ''user'', turn_text = ustr ''hi''\<rparr>],
            chat_display = []\<rparr>" "[0x4D]"]
  by (simp add: initial_state_def encode_b64_def b2a_def table_b2a_base64_def)

subsection \<open>Base64 round trip\<close>

text \<open>Masks as bit counts, and the three octets recovered from the four sextets.\<close>

lemma mask_3: "(3::byte) = mask 2"
  and mask_15: "(15::byte) = mask 4"
  and mask_63: "(63::byte) = mask 6"
  by (simp_all add: mask_eq_exp_minus_1)

lemma Suc_Suc_diff_2: "2 \<le> n \<Longrightarrow> Suc (Suc (n - 2)) = n"
  by simp

lemma octet1: "push_bit 2 (drop_bit 2 (a::byte)) OR drop_bit 4 (push_bit 4 (a AND 3) OR drop_bit 4 b) = a"
proof (rule bit_word_eqI)
  fix n assume "n < LENGTH(8)"
  then show "bit (push_bit 2 (drop_bit 2 a) OR drop_bit 4 (push_bit 4 (a AND 3) OR drop_bit 4 b)) n
             = bit a n"
    unfolding mask_3 by (cases "2 \<le> n") (auto simp add: bit_simps Suc_Suc_diff_2)
qed

lemma octet1_padded: "push_bit 2 (drop_bit 2 (a::byte)) OR drop_bit 4 (push_bit 4 (a AND 3)) = a"
proof (rule bit_word_eqI)
  fix n assume "n < LENGTH(8)"
  then show "bit (push_bit 2 (drop_bit 2 a) OR drop_bit 4 (push_bit 4 (a AND 3))) n = bit a n"
    unfolding mask_3 by (cases "2 \<le> n") (auto simp add: bit_simps Suc_Suc_diff_2)
qed

lemma octet2:
  "push_bit 4 ((push_bit 4 (a AND 3) OR drop_bit 4 b) AND 15) OR
   drop_bit 2 (push_bit 2 (b AND 15) OR drop_bit 6 c) = (b::byte)"
proof (rule bit_word_eqI)
  fix n assume "n < LENGTH(8)"
  then show "bit (push_bit 4 ((push_bit 4 (a AND 3) OR drop_bit 4 b) AND 15) OR
                  drop_bit 2 (push_bit 2 (b AND 15) OR drop_bit 6 c)) n = bit b n"
    unfolding mask_3 mask_15 by (cases "4 \<le> n") (auto simp add: bit_simps)
qed

lemma octet2_padded:
  "push_bit 4 ((push_bit 4 (a AND 3) OR drop_bit 4 b) AND 15) OR
   drop_bit 2 (push_bit 2 (b AND 15)) = (b::byte)"
proof (rule bit_word_eqI)
  fix n assume "n < LENGTH(8)"
  then show "bit (push_bit 4 ((push_bit 4 (a AND 3) OR drop_bit 4 b) AND 15) OR
                  drop_bit 2 (push_bit 2 (b AND 15))) n = bit b n"
    unfolding mask_3 mask_15 by (cases "4 \<le> n") (auto simp add: bit_simps)
qed

lemma octet3:
  "push_bit 6 ((push_bit 2 (b AND 15) OR drop_bit 6 c) AND 3) OR (c AND 63) = (c::byte)"
  unfolding mask_3 mask_15 mask_63
  by (rule bit_word_eqI) (auto simp add: bit_simps)

text \<open>Every sextet the encoder looks up is below 64 already.\<close>

lemma sextet1: "drop_bit 2 (a::byte) AND 63 = drop_bit 2 a"
  unfolding mask_63 by (rule bit_word_eqI) (auto simp add: bit_simps dest: bit_imp_le_length)

lemma sextet2:
  "(push_bit 4 (a AND 3) OR drop_bit 4 b) AND 63 = push_bit 4 (a AND 3) OR drop_bit 4 (b::byte)"
  unfolding mask_63 mask_3
  by (rule bit_word_eqI) (auto simp add: bit_simps dest: bit_imp_le_length)

lemma sextet2_padded: "push_bit 4 (a AND 3) AND 63 = push_bit 4 ((a::byte) AND 3)"
  unfolding mask_63 mask_3
  by (rule bit_word_eqI) (auto simp add: bit_simps dest: bit_imp_le_length)

lemma sextet3:
  "(push_bit 2 (b AND 15) OR drop_bit 6 c) AND 63 = push_bit 2 (b AND 15) OR drop_bit 6 (c::byte)"
  unfolding mask_63 mask_15
  by (rule bit_word_eqI) (auto simp add: bit_simps dest: bit_imp_le_length)

lemma sextet3_padded: "push_bit 2 (b AND 15) AND 63 = push_bit 2 ((b::byte) AND 15)"
  unfolding mask_63 mask_15
  by (rule bit_word_eqI) (auto simp add: bit_simps dest: bit_imp_le_length)

lemma sextet4: "(c AND 63) AND 63 = (c::byte) AND 63"
  by (simp add: and.assoc)

text \<open>The two tables are inverse to each other on the 64 letters.\<close>

lemma table_inverse:
  "\<forall>n \<in> set [0..<64]. table_a2b_base64 (table_b2a_base64 ! n) = Some (word_of_nat n)"
  by code_simp

lemma table_letters:
  "\<forall>n \<in> set [0..<64].
     table_b2a_base64 ! n \<noteq> CHR ''='' \<and> of_char (table_b2a_base64 ! n) < (128::nat)"
  by code_simp

lemma unat_sextet: "unat ((w::byte) AND 63) < 64"
proof -
  have "unat (w AND 63) \<le> unat (63 :: byte)"
    by (rule word_and_le1 [THEN word_le_nat_alt [THEN iffD1]])
  then show ?thesis by simp
qed

lemma a2b_b2a: "table_a2b_base64 (b2a w) = Some (w AND 63)"
  using table_inverse unat_sextet [of w] by (simp add: b2a_def)

lemma b2a_not_pad: "b2a w \<noteq> CHR ''=''"
  and b2a_ascii: "of_char (b2a w) < (128::nat)"
  using table_letters unat_sextet [of w] by (simp_all add: b2a_def)

text \<open>The decoder's loop on one full group, and on the two padded groups.\<close>

lemma a2b_loop_quad:
  "a2b_loop (b2a x1 # b2a x2 # b2a x3 # b2a x4 # s) 0 l p out =
   a2b_loop s 0 0 0
     (out @ [push_bit 2 (x1 AND 63) OR drop_bit 4 (x2 AND 63),
             push_bit 4 ((x2 AND 63) AND 15) OR drop_bit 2 (x3 AND 63),
             push_bit 6 ((x3 AND 63) AND 3) OR (x4 AND 63)])"
  by (simp add: a2b_b2a b2a_not_pad)

lemma a2b_loop_pad2:
  "a2b_loop [b2a x1, b2a x2, CHR ''='', CHR ''=''] 0 l p out =
   Inr (out @ [push_bit 2 (x1 AND 63) OR drop_bit 4 (x2 AND 63)])"
  by (simp add: a2b_b2a b2a_not_pad)

lemma a2b_loop_pad1:
  "a2b_loop [b2a x1, b2a x2, b2a x3, CHR ''=''] 0 l p out =
   Inr (out @ [push_bit 2 (x1 AND 63) OR drop_bit 4 (x2 AND 63),
               push_bit 4 ((x2 AND 63) AND 15) OR drop_bit 2 (x3 AND 63)])"
  by (simp add: a2b_b2a b2a_not_pad)

lemma a2b_loop_b64encode: "a2b_loop (b64encode bs) 0 0 0 out = Inr (out @ bs)"
proof (induction bs arbitrary: out rule: b64encode.induct)
  case 1
  show ?case by simp
next
  case (2 a)
  show ?case
    by (simp only: b64encode.simps a2b_loop_pad2 sextet1 sextet2_padded octet1_padded)
next
  case (3 a b)
  show ?case
    by (simp only: b64encode.simps a2b_loop_pad1 sextet1 sextet2 sextet3_padded
          octet1 octet2_padded)
next
  case (4 a b c rest)
  have "a2b_loop (b64encode (a # b # c # rest)) 0 0 0 out =
        a2b_loop (b64encode rest) 0 0 0 (out @ [a, b, c])"
    by (simp only: b64encode.simps append_Cons append_Nil a2b_loop_quad
          sextet1 sextet2 sextet3 sextet4 octet1 octet2 octet3)
  then show ?case using "4.IH" [of "out @ [a, b, c]"] by simp
qed

lemma b64encode_ascii: "c \<in> set (b64encode bs) \<Longrightarrow> of_char c < (128::nat)"
  by (induction bs rule: b64encode.induct) (auto simp add: b2a_ascii)

text \<open>
  C10. Decoding the base64 encoding of any byte str succeeds and gives the byte str
  back.
\<close>

theorem decode_b64_encode_b64: "decode_b64 (encode_b64 b) = Inr b"
  using a2b_loop_b64encode [of b "[]"] b64encode_ascii [of _ b]
  by (auto simp add: decode_b64_def encode_b64_def b64decode_def not_le set_ustr)

subsection \<open>The parsing loop against the specification\<close>

lemma collect_text_eq: "collect_text cs acc = acc @ piece_texts cs"
  by (induction cs arbitrary: acc) (simp_all add: piece_texts_def Let_def)

lemma parse_output_eq:
  "parse_output outs acc img =
     (acc @ message_texts outs,
      if image_calls outs = [] then img else out_result (last (image_calls outs)))"
proof (induction outs arbitrary: acc img)
  case Nil
  show ?case by (simp add: message_texts_def image_calls_def)
next
  case (Cons out rest)
  show ?case
    by (simp add: Cons.IH collect_text_eq message_texts_def image_calls_def)
qed

lemma message_texts_known: "message_texts (known_items outs) = message_texts outs"
  by (induction outs) (simp_all add: message_texts_def known_items_def)

lemma image_calls_known: "image_calls (known_items outs) = image_calls outs"
  by (induction outs) (auto simp add: image_calls_def known_items_def)

lemma piece_texts_textless:
  "piece_texts (filter (\<lambda>c. piece_text c \<noteq> None) cs) = piece_texts cs"
  by (induction cs) (auto simp add: piece_texts_def)

lemma message_texts_textless: "message_texts (map drop_textless outs) = message_texts outs"
  by (induction outs)
    (simp_all add: message_texts_def drop_textless_def piece_texts_textless del: not_None_eq)

lemma image_calls_textless:
  "map out_result (image_calls (map drop_textless outs)) = map out_result (image_calls outs)"
  by (induction outs) (simp_all add: image_calls_def drop_textless_def)

lemma full_assistant_text_eq: "full_assistant_text outs = strip (join_newline (message_texts outs))"
  by (simp add: full_assistant_text_def parse_output_eq)

lemma assistant_img_b64_eq: "assistant_img_b64 outs =
   (if image_calls outs = [] then None else out_result (last (image_calls outs)))"
  by (simp add: assistant_img_b64_def parse_output_eq)

lemma assistant_img_b64_last: "assistant_img_b64 outs =
   (if image_calls outs = [] then None else last (map out_result (image_calls outs)))"
  by (simp add: assistant_img_b64_eq last_map)

text \<open>\<open>"\n".join\<close> in closed form, and what \<open>strip\<close> leaves and removes.\<close>

lemma join_newline_closed:
  "join_newline ts =
     (if ts = [] then []
      else concat (map (\<lambda>t. t @ [0x0A]) (butlast ts)) @ last ts)"
  by (induction ts rule: join_newline.induct) simp_all

lemma last_dropWhile_eq: "dropWhile P xs \<noteq> [] \<Longrightarrow> last (dropWhile P xs) = last xs"
  by (induction xs) auto

lemma strip_split:
  "s = takeWhile is_space s @ strip s @
         rev (takeWhile is_space (rev (dropWhile is_space s)))"
proof -
  have "rev (dropWhile is_space s) =
          takeWhile is_space (rev (dropWhile is_space s)) @
          dropWhile is_space (rev (dropWhile is_space s))"
    by simp
  then have "dropWhile is_space s =
          rev (dropWhile is_space (rev (dropWhile is_space s))) @
          rev (takeWhile is_space (rev (dropWhile is_space s)))"
    by (metis rev_append rev_rev_ident)
  then have "takeWhile is_space s @ dropWhile is_space s =
     takeWhile is_space s @ strip s @ rev (takeWhile is_space (rev (dropWhile is_space s)))"
    by (simp add: strip_def)
  then show ?thesis by simp
qed

lemma strip_surrounding:
  "\<exists>lead trail. s = lead @ strip s @ trail \<and>
     (\<forall>c \<in> set lead. is_space c) \<and> (\<forall>c \<in> set trail. is_space c)"
proof (intro exI conjI)
  show "s = takeWhile is_space s @ strip s @
         rev (takeWhile is_space (rev (dropWhile is_space s)))"
    by (rule strip_split)
  show "\<forall>c \<in> set (takeWhile is_space s). is_space c"
    by (auto dest: set_takeWhileD)
  show "\<forall>c \<in> set (rev (takeWhile is_space (rev (dropWhile is_space s)))). is_space c"
    by (auto dest: set_takeWhileD)
qed

lemma strip_ends:
  assumes "strip s \<noteq> []"
  shows "\<not> is_space (hd (strip s)) \<and> \<not> is_space (last (strip s))"
proof -
  let ?d = "dropWhile is_space s"
  let ?e = "dropWhile is_space (rev ?d)"
  from assms have e: "?e \<noteq> []" by (simp add: strip_def)
  have d: "?d \<noteq> []"
  proof
    assume "?d = []"
    then have "?e = []" by (simp only: rev.simps dropWhile.simps)
    with e show False by simp
  qed
  have "last (strip s) = hd ?e" using e by (simp add: strip_def last_rev)
  moreover have "\<not> is_space (hd ?e)" using e by (rule hd_dropWhile)
  moreover have "hd (strip s) = last ?e" using e by (simp add: strip_def hd_rev)
  moreover have "last ?e = last (rev ?d)" using e by (rule last_dropWhile_eq)
  moreover have "last (rev ?d) = hd ?d" using d by (simp add: last_rev)
  moreover have "\<not> is_space (hd ?d)" using d by (rule hd_dropWhile)
  ultimately show ?thesis by simp
qed

lemma is_space_ranges:
  "is_space c \<longleftrightarrow>
     (0x09 \<le> c \<and> c \<le> 0x0D) \<or> (0x1C \<le> c \<and> c \<le> 0x20) \<or> c = 0x85 \<or> c = 0xA0 \<or>
     c = 0x1680 \<or> (0x2000 \<le> c \<and> c \<le> 0x200A) \<or> c = 0x2028 \<or> c = 0x2029 \<or>
     c = 0x202F \<or> c = 0x205F \<or> c = 0x3000"
  unfolding is_space_def by (auto; arith)

text \<open>
  C3. The assistant text is the newline-join of the non-empty text pieces of the message
  items, in the order met, with the surrounding whitespace trimmed: the joined text is the
  assistant text between a run of whitespace on each side, and the assistant text, when
  not empty, neither starts nor ends with whitespace (whitespace being the code points
  that Python's \<open>str.strip\<close> removes). Items whose type is neither \<open>message\<close> nor
  \<open>image_generation_call\<close> leave no mark on the state, and neither do content pieces
  without a text.
\<close>

theorem assistant_text_parsing:
  "(\<exists>lead trail.
      (if message_texts outs = [] then []
       else concat (map (\<lambda>t. t @ [0x0A]) (butlast (message_texts outs))) @
            last (message_texts outs)) =
        lead @ full_assistant_text outs @ trail \<and>
      (\<forall>c \<in> set lead. is_space c) \<and> (\<forall>c \<in> set trail. is_space c)) \<and>
   (full_assistant_text outs \<noteq> [] \<longrightarrow>
      \<not> is_space (hd (full_assistant_text outs)) \<and>
      \<not> is_space (last (full_assistant_text outs))) \<and>
   (\<forall>c. is_space c \<longleftrightarrow>
      (0x09 \<le> c \<and> c \<le> 0x0D) \<or> (0x1C \<le> c \<and> c \<le> 0x20) \<or> c = 0x85 \<or> c = 0xA0 \<or>
      c = 0x1680 \<or> (0x2000 \<le> c \<and> c \<le> 0x200A) \<or> c = 0x2028 \<or> c = 0x2029 \<or>
      c = 0x202F \<or> c = 0x205F \<or> c = 0x3000) \<and>
   apply_response st user_prompt (known_items outs) = apply_response st user_prompt outs \<and>
   apply_response st user_prompt (map drop_textless outs) = apply_response st user_prompt outs"
proof -
  have a: "full_assistant_text (known_items outs) = full_assistant_text outs"
    by (simp add: full_assistant_text_eq message_texts_known)
  have b: "assistant_img_b64 (known_items outs) = assistant_img_b64 outs"
    by (simp add: assistant_img_b64_eq image_calls_known)
  have c: "full_assistant_text (map drop_textless outs) = full_assistant_text outs"
    by (simp add: full_assistant_text_eq message_texts_textless)
  have d: "assistant_img_b64 (map drop_textless outs) = assistant_img_b64 outs"
    using image_calls_textless [of outs] by (auto simp add: assistant_img_b64_last)
  have e: "\<exists>lead trail.
      (if message_texts outs = [] then []
       else concat (map (\<lambda>t. t @ [0x0A]) (butlast (message_texts outs))) @
            last (message_texts outs)) =
        lead @ full_assistant_text outs @ trail \<and>
      (\<forall>c \<in> set lead. is_space c) \<and> (\<forall>c \<in> set trail. is_space c)"
    using strip_surrounding [of "join_newline (message_texts outs)"]
    unfolding full_assistant_text_eq join_newline_closed [symmetric] .
  have f: "full_assistant_text outs \<noteq> [] \<longrightarrow>
      \<not> is_space (hd (full_assistant_text outs)) \<and>
      \<not> is_space (last (full_assistant_text outs))"
    unfolding full_assistant_text_eq using strip_ends by blast
  have g: "apply_response st user_prompt (known_items outs) = apply_response st user_prompt outs"
    by (simp add: apply_response_def a b)
  have h: "apply_response st user_prompt (map drop_textless outs) =
           apply_response st user_prompt outs"
    by (simp add: apply_response_def c d)
  from e f g h is_space_ranges show ?thesis by blast
qed

theorem assistant_text_parsing_witness:
  "full_assistant_text mixed_response =
     ustr ''Hello'' @ [0x0A] @ ustr ''big '' @ [0x0A] @ ustr ''world'' \<and>
   message_texts mixed_response =
     [[0x20, 0x09] @ ustr ''Hello'', ustr ''big '', ustr ''world'' @ [0x2003, 0x0A]] \<and>
   is_space 0x20 \<and> is_space 0x09 \<and> is_space 0x2003 \<and> is_space 0x0A \<and>
   \<not> is_space (hd (full_assistant_text mixed_response)) \<and>
   \<not> is_space (last (full_assistant_text mixed_response)) \<and>
   known_items mixed_response = [mixed_response ! 0, mixed_response ! 2] \<and>
   apply_response uploaded_session (ustr ''make it blue'') mixed_response =
     uploaded_session
       \<lparr>chat_history :=
          [\<lparr>turn_role = ustr ''user'', turn_text = ustr ''make it blue''\<rparr>,
           \<lparr>turn_role = ustr ''assistant'',
            turn_text = ustr ''Hello'' @ [0x0A] @ ustr ''big '' @ [0x0A] @ ustr ''world''\<rparr>],
        chat_display :=
          [\<lparr>disp_role = ustr ''user'', disp_kind = ustr ''text'',
            disp_data = ustr ''make it blue''\<rparr>,
           \<lparr>disp_role = ustr ''assistant'', disp_kind = ustr ''text'',
            disp_data = ustr ''Hello'' @ [0x0A] @ ustr ''big '' @ [0x0A] @ ustr ''world''\<rparr>]\<rparr>"
  using assistant_text_parsing [of mixed_response uploaded_session "ustr ''make it blue''"]
  by (simp add: apply_response_def full_assistant_text_def assistant_img_b64_def strip_def
        is_space_def Let_def ustr_def mixed_response_def message_texts_def piece_texts_def
        known_items_def uploaded_session_def)

lemma message_texts_keep: "message_texts (keep_last_call outs) = message_texts outs"
  by (induction outs) (simp_all add: message_texts_def)

lemma image_calls_keep:
  "image_calls (keep_last_call outs) =
     (if image_calls outs = [] then [] else [last (image_calls outs)])"
  by (induction outs) (auto simp add: image_calls_def)

subsection \<open>What a response does to the session\<close>

lemma apply_response_keep:
  "apply_response st user_prompt (keep_last_call outs) = apply_response st user_prompt outs"
proof -
  have a: "full_assistant_text (keep_last_call outs) = full_assistant_text outs"
    by (simp add: full_assistant_text_eq message_texts_keep)
  have b: "assistant_img_b64 (keep_last_call outs) = assistant_img_b64 outs"
    by (simp add: assistant_img_b64_eq image_calls_keep)
  show ?thesis by (simp add: apply_response_def a b)
qed

lemma apply_response_current:
  "last_image_b64 (apply_response st user_prompt outs) =
     (if truthy (assistant_img_b64 outs) then assistant_img_b64 outs else last_image_b64 st)"
  by (simp add: apply_response_def Let_def)

lemma apply_response_original:
  "original_image_b64 (apply_response st user_prompt outs) = original_image_b64 st"
  by (simp add: apply_response_def Let_def)

lemma apply_response_history:
  "chat_history (apply_response st user_prompt outs) =
     chat_history st @ \<lparr>turn_role = ustr ''user'', turn_text = user_prompt\<rparr> #
       (if full_assistant_text outs \<noteq> []
        then [\<lparr>turn_role = ustr ''assistant'', turn_text = full_assistant_text outs\<rparr>] else [])"
  by (simp add: apply_response_def Let_def)

lemma apply_response_display:
  "chat_display (apply_response st user_prompt outs) =
     chat_display st @
       \<lparr>disp_role = ustr ''user'', disp_kind = ustr ''text'', disp_data = user_prompt\<rparr> #
       (if full_assistant_text outs \<noteq> []
        then [\<lparr>disp_role = ustr ''assistant'', disp_kind = ustr ''text'',
               disp_data = full_assistant_text outs\<rparr>] else []) @
       (if truthy (assistant_img_b64 outs)
        then [\<lparr>disp_role = ustr ''assistant'', disp_kind = ustr ''image'',
               disp_data = the (assistant_img_b64 outs)\<rparr>] else [])"
  by (simp add: apply_response_def Let_def)

text \<open>
  The specification's second scenario: a response with the text \<open>Done!\<close> and an image.
\<close>

lemma scenario_text_and_image:
  "apply_response uploaded_session (ustr ''make it blue'')
     [\<lparr>out_type = ustr ''message'', out_content = [\<lparr>piece_text = Some (ustr ''Done!'')\<rparr>],
       out_result = None\<rparr>, second_call] = edited_session"
  by (simp add: apply_response_def full_assistant_text_def assistant_img_b64_def strip_def
        is_space_def Let_def ustr_def uploaded_session_def edited_session_def
        second_call_def)

text \<open>
  C4, as stated, fails: with two image-generation calls of which the last has no result,
  the current image is not the last call's result; it keeps its prior value, and the
  first call's image is dropped as well.
\<close>

theorem last_image_call_counterexample:
  "last_image_b64
     (apply_response
        \<lparr>original_image_b64 = Some (ustr ''TWFu''), last_image_b64 = Some (ustr ''TWFu''),
         chat_history = [], chat_display = []\<rparr>
        (ustr ''make it blue'')
        [\<lparr>out_type = ustr ''image_generation_call'', out_content = [],
          out_result = Some (ustr ''QUJD'')\<rparr>,
         \<lparr>out_type = ustr ''image_generation_call'', out_content = [],
          out_result = None\<rparr>])
   \<noteq> out_result
       \<lparr>out_type = ustr ''image_generation_call'', out_content = [], out_result = None\<rparr>"
  by (simp add: apply_response_def full_assistant_text_def assistant_img_b64_def strip_def
        is_space_def Let_def ustr_def)

text \<open>
  C4, amended. The image taken from a response is the result of its last
  image-generation call (none when there is no such call). When that result is a
  non-empty text it becomes the current image; when it is \<open>None\<close> or empty the current
  image keeps its prior value. The session after the response is the same as for the
  response without the earlier image-generation calls, so these leave no mark on it.
\<close>

theorem last_image_call_kept:
  "(image_calls outs \<noteq> [] \<longrightarrow>
      assistant_img_b64 outs = out_result (last (image_calls outs))) \<and>
   (image_calls outs = [] \<longrightarrow> assistant_img_b64 outs = None) \<and>
   (truthy (assistant_img_b64 outs) \<longrightarrow>
      last_image_b64 (apply_response st user_prompt outs) = assistant_img_b64 outs) \<and>
   (\<not> truthy (assistant_img_b64 outs) \<longrightarrow>
      last_image_b64 (apply_response st user_prompt outs) = last_image_b64 st) \<and>
   apply_response st user_prompt (keep_last_call outs) = apply_response st user_prompt outs"
  by (simp add: apply_response_keep apply_response_current assistant_img_b64_eq)

theorem last_image_call_kept_witness:
  "image_calls [first_call, done_message, second_call] \<noteq> [] \<and>
   truthy (assistant_img_b64 [first_call, done_message, second_call]) \<and>
   last_image_b64
     (apply_response uploaded_session (ustr ''make it blue'')
        [first_call, done_message, second_call]) = Some (ustr ''REVG'') \<and>
   keep_last_call [first_call, done_message, second_call] = [done_message, second_call] \<and>
   apply_response uploaded_session (ustr ''make it blue'') [done_message, second_call] =
     apply_response uploaded_session (ustr ''make it blue'')
       [first_call, done_message, second_call] \<and>
   \<not> truthy (assistant_img_b64 [first_call, empty_call]) \<and>
   last_image_b64 (apply_response uploaded_session (ustr ''make it blue'') [first_call, empty_call])
     = Some (ustr ''TWFu'') \<and>
   image_calls [done_message] = [] \<and>
   assistant_img_b64 [done_message] = None"
  using last_image_call_kept
      [of "[first_call, done_message, second_call]" uploaded_session "ustr ''make it blue''"]
    last_image_call_kept [of "[first_call, empty_call]" uploaded_session "ustr ''make it blue''"]
    last_image_call_kept [of "[done_message]" uploaded_session "ustr ''make it blue''"]
  by (simp add: apply_response_def full_assistant_text_def assistant_img_b64_def strip_def
        is_space_def Let_def ustr_def image_calls_def uploaded_session_def first_call_def
        second_call_def empty_call_def done_message_def)

subsection \<open>Alternation of the transcript\<close>

lemma alternates_from_append:
  "r = ustr ''user'' \<or> r = ustr ''assistant'' \<Longrightarrow>
   alternates_from r (xs @ ys) =
     (alternates_from r xs \<and>
      alternates_from
        (if even (length xs) then r else (if r = ustr ''user'' then (ustr ''assistant'') else (ustr ''user''))) ys)"
  by (induction xs arbitrary: r) auto

text \<open>A response with a text keeps the alternation.\<close>

lemma transcript_alternates_with_text:
  "alternates_from (ustr ''user'') (chat_history st) \<Longrightarrow> even (length (chat_history st)) \<Longrightarrow>
   full_assistant_text outs \<noteq> [] \<Longrightarrow>
   alternates_from (ustr ''user'') (chat_history (apply_response st user_prompt outs)) \<and>
   even (length (chat_history (apply_response st user_prompt outs)))"
  by (simp add: apply_response_history alternates_from_append)

text \<open>
  C1. The transcript does not always alternate: after an upload, a response that carries
  an image but no text adds only the user's turn, and the next exchange puts a second
  user turn right behind it.
\<close>

theorem transcript_two_user_turns:
  "chat_history
     (exec_all
        [IngestUpload [0x4D, 0x61, 0x6E],
         ApplyResponse (ustr ''make it blue'')
           [\<lparr>out_type = ustr ''image_generation_call'', out_content = [],
             out_result = Some (ustr ''QUJD'')\<rparr>],
         ApplyResponse (ustr ''now red'')
           [\<lparr>out_type = ustr ''message'', out_content = [\<lparr>piece_text = Some (ustr ''Done!'')\<rparr>],
             out_result = None\<rparr>]]
        initial_state) =
     [\<lparr>turn_role = ustr ''user'', turn_text = ustr ''make it blue''\<rparr>,
      \<lparr>turn_role = ustr ''user'', turn_text = ustr ''now red''\<rparr>,
      \<lparr>turn_role = ustr ''assistant'', turn_text = ustr ''Done!''\<rparr>] \<and>
   \<not> alternates_from (ustr ''user'')
     (chat_history
        (exec_all
           [IngestUpload [0x4D, 0x61, 0x6E],
            ApplyResponse (ustr ''make it blue'')
              [\<lparr>out_type = ustr ''image_generation_call'', out_content = [],
                out_result = Some (ustr ''QUJD'')\<rparr>],
            ApplyResponse (ustr ''now red'')
              [\<lparr>out_type = ustr ''message'', out_content = [\<lparr>piece_text = Some (ustr ''Done!'')\<rparr>],
                out_result = None\<rparr>]]
           initial_state))"
  by (simp add: apply_response_def full_assistant_text_def assistant_img_b64_def strip_def
        is_space_def Let_def ustr_def initial_state_def ingest_upload_def)

subsection \<open>The request payload\<close>

lemma older_turns_eq: "older_turns h messages = messages @ map history_message h"
  by (induction h arbitrary: messages) simp_all

lemma build_payload_eq:
  "build_payload st user_prompt =
     map history_message (chat_history st) @
       [\<lparr>msg_role = ustr ''user'',
         msg_content =
           [TextItem (ustr ''input_text'') user_prompt,
            ImageItem (ustr ''input_image'')
              (ustr ''data:image/jpeg;base64,'' @ format_opt (last_image_b64 st))]\<rparr>]"
  by (simp add: build_payload_def older_turns_eq)

text \<open>
  C2. The payload has one turn per transcript entry, in order, with the entry's role and
  one text item tagged \<open>input_text\<close> for a user and \<open>output_text\<close> for an assistant, then
  one last user turn holding the prompt and the current image as a data URI; its length is
  the transcript's length plus one.
\<close>

theorem build_payload_shape:
  "length (build_payload st user_prompt) = length (chat_history st) + 1 \<and>
   (\<forall>i < length (chat_history st).
      msg_role (build_payload st user_prompt ! i) = turn_role (chat_history st ! i) \<and>
      msg_content (build_payload st user_prompt ! i) =
        [TextItem
           (if turn_role (chat_history st ! i) = ustr ''user'' then (ustr ''input_text'')
            else (ustr ''output_text''))
           (turn_text (chat_history st ! i))] \<and>
      (turn_role (chat_history st ! i) = ustr ''assistant'' \<longrightarrow>
         msg_content (build_payload st user_prompt ! i) =
           [TextItem (ustr ''output_text'') (turn_text (chat_history st ! i))])) \<and>
   build_payload st user_prompt ! length (chat_history st) =
     \<lparr>msg_role = ustr ''user'',
      msg_content =
        [TextItem (ustr ''input_text'') user_prompt,
         ImageItem (ustr ''input_image'')
           (ustr ''data:image/jpeg;base64,'' @ format_opt (last_image_b64 st))]\<rparr> \<and>
   (\<forall>img. last_image_b64 st = Some img \<longrightarrow> format_opt (last_image_b64 st) = img)"
  by (auto simp add: build_payload_eq nth_append history_message_def format_opt_def)

theorem build_payload_shape_witness:
  "(1::nat) < length (chat_history edited_session) \<and>
   build_payload edited_session (ustr ''now red'') ! 0 =
     \<lparr>msg_role = ustr ''user'', msg_content = [TextItem (ustr ''input_text'') (ustr ''make it blue'')]\<rparr> \<and>
   build_payload edited_session (ustr ''now red'') ! 1 =
     \<lparr>msg_role = ustr ''assistant'', msg_content = [TextItem (ustr ''output_text'') (ustr ''Done!'')]\<rparr> \<and>
   build_payload edited_session (ustr ''now red'') ! 2 =
     \<lparr>msg_role = ustr ''user'',
      msg_content =
        [TextItem (ustr ''input_text'') (ustr ''now red''),
         ImageItem (ustr ''input_image'') (ustr ''data:image/jpeg;base64,REVG'')]\<rparr> \<and>
   length (build_payload edited_session (ustr ''now red'')) = 3"
  using build_payload_shape [of edited_session "ustr ''now red''"]
  by (simp add: build_payload_def history_message_def format_opt_def edited_session_def)

subsection \<open>The prompt handler's guard\<close>

text \<open>
  C5. A prompt submitted while no original image is stored stops with the missing-image
  error: the service is not called, no payload is built, and the session is unchanged.
\<close>

theorem prompt_without_image:
  "truthy user_prompt \<Longrightarrow> original_image_b64 st = None \<Longrightarrow>
   handle_prompt create user_prompt st = (Stopped MissingImageError, st)"
  by (simp add: handle_prompt_def)

theorem prompt_without_image_witness:
  "truthy (Some (ustr ''make it blue'')) \<and> original_image_b64 initial_state = None \<and>
   handle_prompt (\<lambda>payload. Some [done_message]) (Some (ustr ''make it blue'')) initial_state =
     (Stopped MissingImageError, initial_state)"
  using prompt_without_image
    [of "Some (ustr ''make it blue'')" initial_state "\<lambda>payload. Some [done_message]"]
  by (simp add: initial_state_def)

subsection \<open>Sequences of operations\<close>

text \<open>
  C7. Whatever the state, an operation changes the original image only when it is a
  reset (which leaves it absent) or an upload into a session without an original image
  (which sets it to the encoding of the uploaded bytes). Applying a response never changes
  it, and neither does the prompt handler, which builds the payload.
\<close>

theorem original_image_frame:
  "(original_image_b64 (exec op st) \<noteq> original_image_b64 st \<longrightarrow>
      (op = Reset \<and> original_image_b64 (exec op st) = None) \<or>
      (\<exists>raw. op = IngestUpload raw \<and> original_image_b64 st = None \<and>
         original_image_b64 (exec op st) = Some (encode_b64 raw))) \<and>
   original_image_b64 (apply_response st user_prompt outs) = original_image_b64 st \<and>
   original_image_b64 (snd (handle_prompt create prompt st)) = original_image_b64 st"
  by (cases op)
    (auto simp add: reset_def ingest_upload_def apply_response_original handle_prompt_def
       Let_def split: option.splits)

theorem original_image_frame_witness:
  "original_image_b64 (exec (IngestUpload [0x4D, 0x61, 0x6E]) initial_state)
     \<noteq> original_image_b64 initial_state \<and>
   original_image_b64 initial_state = None \<and>
   original_image_b64 (exec (IngestUpload [0x4D, 0x61, 0x6E]) initial_state) =
     Some (encode_b64 [0x4D, 0x61, 0x6E]) \<and>
   original_image_b64 (exec Reset uploaded_session) \<noteq> original_image_b64 uploaded_session \<and>
   original_image_b64 (exec Reset uploaded_session) = None"
  using original_image_frame [of "IngestUpload [0x4D, 0x61, 0x6E]" initial_state]
    original_image_frame [of Reset uploaded_session]
  by (simp add: initial_state_def uploaded_session_def ingest_upload_def reset_def)

lemma exec_le:
  "length (chat_history st) \<le> length (chat_display st) \<Longrightarrow>
   length (chat_history (exec op st)) \<le> length (chat_display (exec op st))"
  by (cases op)
    (auto simp add: reset_def ingest_upload_def apply_response_history apply_response_display)

lemma exec_all_le:
  "length (chat_history st) \<le> length (chat_display st) \<Longrightarrow>
   length (chat_history (exec_all ops st)) \<le> length (chat_display (exec_all ops st))"
  by (induction ops arbitrary: st) (simp_all add: exec_le)

lemma act_le:
  "length (chat_history st) \<le> length (chat_display st) \<Longrightarrow>
   length (chat_history (act a st)) \<le> length (chat_display (act a st))"
  by (cases a)
    (auto simp add: reset_def ingest_upload_def apply_response_history apply_response_display
       handle_prompt_def Let_def split: option.splits)

lemma act_all_le:
  "length (chat_history st) \<le> length (chat_display st) \<Longrightarrow>
   length (chat_history (act_all acts st)) \<le> length (chat_display (act_all acts st))"
  by (induction acts arbitrary: st) (simp_all add: act_le)

text \<open>
  C8. After any sequence of resets, uploads and applied responses from the initial
  session, the transcript is no longer than the display log; the same holds for any
  sequence of user actions.
\<close>

theorem history_le_display:
  "length (chat_history (exec_all ops initial_state))
     \<le> length (chat_display (exec_all ops initial_state)) \<and>
   length (chat_history (act_all acts initial_state))
     \<le> length (chat_display (act_all acts initial_state))"
  by (simp add: exec_all_le act_all_le initial_state_def)

lemma truthy_not_None: "truthy v \<Longrightarrow> v \<noteq> None"
  by (cases v) simp_all

lemma reset_both: "(original_image_b64 (reset st) = None) = (last_image_b64 (reset st) = None)"
  by (simp add: reset_def)

lemma ingest_upload_both:
  "(original_image_b64 st = None) = (last_image_b64 st = None) \<Longrightarrow>
   (original_image_b64 (ingest_upload uploaded st) = None) =
   (last_image_b64 (ingest_upload uploaded st) = None)"
  by (simp add: ingest_upload_def split: option.splits)

lemma handle_prompt_both:
  "(original_image_b64 st = None) = (last_image_b64 st = None) \<Longrightarrow>
   (original_image_b64 (snd (handle_prompt create user_prompt st)) = None) =
   (last_image_b64 (snd (handle_prompt create user_prompt st)) = None)"
  by (auto simp add: handle_prompt_def Let_def apply_response_original apply_response_current
        split: option.splits dest: truthy_not_None)

lemma act_both:
  "(original_image_b64 st = None) = (last_image_b64 st = None) \<Longrightarrow>
   (original_image_b64 (act a st) = None) = (last_image_b64 (act a st) = None)"
  by (cases a) (simp_all add: reset_both ingest_upload_both handle_prompt_both)

lemma act_all_both:
  "(original_image_b64 st = None) = (last_image_b64 st = None) \<Longrightarrow>
   (original_image_b64 (act_all acts st) = None) = (last_image_b64 (act_all acts st) = None)"
  by (induction acts arbitrary: st) (simp_all add: act_both)

lemma handle_prompt_stopped:
  "(fst (handle_prompt create (Some user_prompt) st) = Stopped MissingImageError) =
   (user_prompt \<noteq> [] \<and> original_image_b64 st = None)"
  by (simp add: handle_prompt_def Let_def split: option.splits)

lemma rerun_both:
  "(original_image_b64 st = None) = (last_image_b64 st = None) \<Longrightarrow>
   (original_image_b64 (rerun clicked uploaded user_prompt create st) = None) =
   (last_image_b64 (rerun clicked uploaded user_prompt create st) = None)"
  unfolding rerun_def Let_def
  by (intro handle_prompt_both ingest_upload_both) (simp add: reset_both)

text \<open>
  C9. In every session reached from the initial one by resets, uploads and submitted
  prompts, the original image is absent exactly when the current image is absent; so the
  handler stops with the missing-image error exactly when a prompt is submitted and the
  current image is absent.
\<close>

theorem original_iff_current:
  "((original_image_b64 (act_all acts initial_state) = None) =
    (last_image_b64 (act_all acts initial_state) = None)) \<and>
   ((fst (handle_prompt create (Some user_prompt) (act_all acts initial_state))
       = Stopped MissingImageError) =
    (user_prompt \<noteq> [] \<and> last_image_b64 (act_all acts initial_state) = None))"
proof -
  have "(original_image_b64 (act_all acts initial_state) = None) =
        (last_image_b64 (act_all acts initial_state) = None)"
    by (rule act_all_both) (simp add: initial_state_def)
  then show ?thesis by (simp add: handle_prompt_stopped)
qed

end
